theory Spec2Isabelle
  imports Complex_Main
begin

section \<open>Exceptions and external types\<close>

text \<open>
  The source and the built-ins it calls raise four Python exceptions, each carrying a
  message. A raise is modelled as a value \<open>Inl e\<close> of a sum type.
\<close>

datatype exc = ValueError string | IndexError string | KeyError string | OverflowError string

text \<open>The exception class of a raised exception (Python's \<open>type(e).__name__\<close>).\<close>

fun exc_type :: "exc \<Rightarrow> string" where
  "exc_type (ValueError m) = ''ValueError''"
| "exc_type (IndexError m) = ''IndexError''"
| "exc_type (KeyError m) = ''KeyError''"
| "exc_type (OverflowError m) = ''OverflowError''"

text \<open>An object reference. Two references are the same object iff the addresses are equal.\<close>

type_synonym addr = nat

text \<open>
  Modelled from the spec: \<open>Resource\<close> is imported from the sibling module
  \<open>resources\<close>, which is not part of the source at hand. The only attribute used is
  \<open>index\<close>, a zero-based integer position, hence a natural number.
\<close>

record Resource =
  res_index :: nat

section \<open>Python numbers\<close>

text \<open>
  A number that the caller passes (a quantity, a scalar factor) and a multiplier that a
  handle holds is a Python \<open>int\<close>, which is unbounded, or a Python \<open>float\<close>, which is
  denoted by a real number. Python's literal \<open>1\<close> is the int 1.
\<close>

datatype number = PyInt int | PyFloat real

instantiation number :: one
begin

definition one_number :: number where
  "one_number = PyInt 1"

instance ..

end

text \<open>
  An int is converted to a float wherever it meets a float, in arithmetic and on a store
  into a \<open>float64\<close> array. The conversion raises \<open>OverflowError\<close> when the int, rounded
  to 53 significant bits, does not fit: from \<open>2^1024 - 2^970\<close> on, the midpoint between
  the largest float and \<open>2^1024\<close>.
\<close>

definition int_too_large :: "int \<Rightarrow> bool" where
  "int_too_large n = (2 ^ 1024 - 2 ^ 970 \<le> \<bar>n\<bar>)"

text \<open>
  The elements of a NumPy \<open>float64\<close> array are modelled as the real numbers they stand
  for (infinities and NaN are left out). The float that an int is converted to is the int
  rounded to 53 significant bits, a tie going to the even neighbour.
\<close>

type_synonym ndarray = "real list"

fun bit_length :: "nat \<Rightarrow> nat" where
  "bit_length n = (if n = 0 then 0 else Suc (bit_length (n div 2)))"

definition int_to_float64 :: "int \<Rightarrow> real" where
  "int_to_float64 n =
     (let a = nat \<bar>n\<bar>;
          s = bit_length a - 53;
          q = a div 2 ^ s;
          r = a mod 2 ^ s;
          q' = (if 2 ^ s < 2 * r \<or> (2 * r = 2 ^ s \<and> odd q) then q + 1 else q)
      in real_of_int (sgn n) * real (q' * 2 ^ s))"

text \<open>
  The assignment \<open>array[i] = v\<close> into a \<open>float64\<close> array converts \<open>v\<close>: a float is
  stored as it is, an int is converted or raises.
\<close>

definition float64 :: "number \<Rightarrow> exc + real" where
  "float64 v =
     (case v of
        PyFloat x \<Rightarrow> Inr x
      | PyInt n \<Rightarrow>
          if int_too_large n then Inl (OverflowError ''int too large to convert to float'')
          else Inr (int_to_float64 n))"

section \<open>Python built-ins used by the source\<close>

text \<open>\<open>max(xs)\<close> raises \<open>ValueError\<close> on an empty sequence.\<close>

definition py_max :: "nat list \<Rightarrow> exc + nat" where
  "py_max xs = (case xs of
       [] \<Rightarrow> Inl (ValueError ''max() arg is an empty sequence'')
     | y # ys \<Rightarrow> Inr (fold max ys y))"

text \<open>
  \<open>xs[i]\<close> for a Python list: a negative index counts from the end, and an index out of
  range raises \<open>IndexError\<close>.
\<close>

definition py_getitem :: "'a list \<Rightarrow> int \<Rightarrow> exc + 'a" where
  "py_getitem xs i =
     (if 0 \<le> i \<and> i < int (length xs) then Inr (xs ! nat i)
      else if i < 0 \<and> - int (length xs) \<le> i then Inr (xs ! nat (int (length xs) + i))
      else Inl (IndexError ''list index out of range''))"

text \<open>\<open>np.zeros(n)\<close>.\<close>

definition np_zeros :: "nat \<Rightarrow> ndarray" where
  "np_zeros n = replicate n 0"

text \<open>
  \<open>a.resize(n, refcheck=False)\<close>: the vector is cut or extended with zeros to length
  \<open>n\<close>, in place.
\<close>

definition np_resize :: "ndarray \<Rightarrow> nat \<Rightarrow> ndarray" where
  "np_resize a n = take n a @ replicate (n - length a) 0"

text \<open>
  \<open>np.transpose(np.array(rows))\<close> for rows of the common length \<open>m\<close>: entry
  \<open>(r, j)\<close> of the result is entry \<open>r\<close> of row \<open>j\<close>.
\<close>

definition np_transpose :: "nat \<Rightarrow> ndarray list \<Rightarrow> real list list" where
  "np_transpose m rows = map (\<lambda>r. map (\<lambda>row. row ! r) rows) [0..<m]"

section \<open>The registry: class Processes\<close>

text \<open>
  A handle (class \<open>Process\<close>) holds a reference to its registry, a position and a
  multiplier. \<open>Process.__init__\<close> sets the multiplier to 1.
\<close>

record Process =
  parent :: addr
  index :: int
  multiplier :: number

definition Process_init :: "int \<Rightarrow> addr \<Rightarrow> Process" where
  "Process_init i p = \<lparr>parent = p, index = i, multiplier = 1\<rparr>"

text \<open>
  The registry holds the list \<open>_processes\<close> of (name, vector) pairs and the cache
  \<open>_process_produces\<close>, which is \<open>None\<close> until the matrix is first computed.
\<close>

record Processes =
  reg_processes :: "(string \<times> ndarray) list"
  reg_process_produces :: "real list list option"

definition Processes_init :: Processes where
  "Processes_init = \<lparr>reg_processes = [], reg_process_produces = None\<rparr>"

text \<open>\<open>__getitem__\<close> takes an integer or a name.\<close>

datatype key = IntKey int | StrKey string

text \<open>
  \<open>Processes.__getitem__\<close>. The first argument is the address of the registry itself,
  which the new handle records as its parent.
\<close>

fun getitem :: "addr \<Rightarrow> Processes \<Rightarrow> key \<Rightarrow> exc + Process" where
  "getitem self r (IntKey arg) =
     (if arg < int (length (reg_processes r)) then Inr (Process_init arg self)
      else Inl (IndexError ''list index out of range''))"
| "getitem self r (StrKey arg) =
     (let results = [i. (i, (name, a)) \<leftarrow> enumerate 0 (reg_processes r), name = arg]
      in if length results = 0 then Inl (KeyError ([CHR 0x27] @ arg @ [CHR 0x27]))
         else if length results > 1
           then Inl (KeyError (''Name '' @ arg @ '' non unique: please use index''))
         else Inr (Process_init (int (results ! 0)) self))"

text \<open>\<open>Processes.__len__\<close>.\<close>

definition len :: "Processes \<Rightarrow> nat" where
  "len r = length (reg_processes r)"

text \<open>\<open>Processes.__contains__\<close>, for an argument that is a handle.\<close>

definition contains :: "addr \<Rightarrow> Processes \<Rightarrow> Process \<Rightarrow> bool" where
  "contains self r other =
     (let process_index = index other
      in if (0 \<le> process_index \<and> process_index < int (len r)) \<and> parent other = self
         then True else False)"

text \<open>
  The loop of \<open>create\<close> that writes the quantities into the new array, in the order
  supplied. A quantity that cannot be converted ends the loop with its exception.
\<close>

fun store_quantities :: "(Resource \<times> number) list \<Rightarrow> ndarray \<Rightarrow> exc + ndarray" where
  "store_quantities [] array = Inr array"
| "store_quantities ((resource, v) # rest) array =
     (case float64 v of
        Inl e \<Rightarrow> Inl e
      | Inr x \<Rightarrow> store_quantities rest (array[res_index resource := x]))"

text \<open>
  \<open>Processes.create\<close>. The registry after the call is returned in both outcomes, so that
  what a failed call leaves behind can be stated: the definition is appended after the
  loop, so a call that raises appends nothing.
\<close>

definition create ::
  "addr \<Rightarrow> Processes \<Rightarrow> string \<Rightarrow> (Resource \<times> number) list \<Rightarrow>
     Processes \<times> (exc + Process)" where
  "create self r name resources =
     (if length resources = 0
      then (r, Inl (ValueError (''No resources attached to '' @ name)))
      else case py_max (map (\<lambda>(resource, v). res_index resource) resources) of
        Inl e \<Rightarrow> (r, Inl e)
      | Inr m \<Rightarrow>
          let res_max_index = m + 1
          in case store_quantities resources (np_zeros res_max_index) of
               Inl e \<Rightarrow> (r, Inl e)
             | Inr array \<Rightarrow>
                 let process_inner = (name, array);
                     r' = r\<lparr>reg_processes := reg_processes r @ [process_inner]\<rparr>
                 in (r', getitem self r' (IntKey (int (length (reg_processes r')) - 1))))"

text \<open>
  The property \<open>Processes.process_produces\<close>. The loops over \<open>self\<close> visit the handles of
  positions \<open>0 .. len - 1\<close> and read each one's vector, that is, they visit the stored
  vectors in registration order.
\<close>

definition process_produces :: "Processes \<Rightarrow> Processes \<times> (exc + real list list)" where
  "process_produces r =
     (case reg_process_produces r of
        Some cached \<Rightarrow> (r, Inr cached)
      | None \<Rightarrow>
          (case py_max (map (\<lambda>(name, a). length a) (reg_processes r)) of
             Inl e \<Rightarrow> (r, Inl e)
           | Inr max_resource_size \<Rightarrow>
               let padded = map (\<lambda>(name, a). (name, np_resize a max_resource_size))
                              (reg_processes r);
                   m = np_transpose max_resource_size (map snd padded)
               in (r\<lparr>reg_processes := padded, reg_process_produces := Some m\<rparr>, Inr m)))"

section \<open>Arithmetic on Python numbers\<close>

text \<open>
  What the operations of Python's floats compute (rounding, infinities, NaN, the text that
  \<open>str\<close> gives) is left open: the operations are a parameter of the model, and every
  statement about handles and expressions holds whatever they are.
\<close>

record float_ops =
  f_add :: "real \<Rightarrow> real \<Rightarrow> real"
  f_mul :: "real \<Rightarrow> real \<Rightarrow> real"
  f_neg :: "real \<Rightarrow> real"
  f_abs :: "real \<Rightarrow> real"
  f_lt_int :: "real \<Rightarrow> int \<Rightarrow> bool"
  f_eq_int :: "real \<Rightarrow> int \<Rightarrow> bool"
  f_str :: "real \<Rightarrow> string"

text \<open>The conversion of an int that meets a float in \<open>+\<close> or \<open>*\<close>.\<close>

definition to_float :: "int \<Rightarrow> exc + real" where
  "to_float n =
     (if int_too_large n then Inl (OverflowError ''int too large to convert to float'')
      else Inr (int_to_float64 n))"

text \<open>
  \<open>a + b\<close> and \<open>a * b\<close>: exact on two ints, the float operation on two floats, and on an
  int and a float the float operation after the conversion of the int, which may raise.
\<close>

fun num_add :: "float_ops \<Rightarrow> number \<Rightarrow> number \<Rightarrow> exc + number" where
  "num_add F (PyInt a) (PyInt b) = Inr (PyInt (a + b))"
| "num_add F (PyFloat x) (PyFloat y) = Inr (PyFloat (f_add F x y))"
| "num_add F (PyInt a) (PyFloat y) =
     (case to_float a of Inl e \<Rightarrow> Inl e | Inr x \<Rightarrow> Inr (PyFloat (f_add F x y)))"
| "num_add F (PyFloat x) (PyInt b) =
     (case to_float b of Inl e \<Rightarrow> Inl e | Inr y \<Rightarrow> Inr (PyFloat (f_add F x y)))"

fun num_mul :: "float_ops \<Rightarrow> number \<Rightarrow> number \<Rightarrow> exc + number" where
  "num_mul F (PyInt a) (PyInt b) = Inr (PyInt (a * b))"
| "num_mul F (PyFloat x) (PyFloat y) = Inr (PyFloat (f_mul F x y))"
| "num_mul F (PyInt a) (PyFloat y) =
     (case to_float a of Inl e \<Rightarrow> Inl e | Inr x \<Rightarrow> Inr (PyFloat (f_mul F x y)))"
| "num_mul F (PyFloat x) (PyInt b) =
     (case to_float b of Inl e \<Rightarrow> Inl e | Inr y \<Rightarrow> Inr (PyFloat (f_mul F x y)))"


fun num_abs :: "float_ops \<Rightarrow> number \<Rightarrow> number" where
  "num_abs F (PyInt a) = PyInt \<bar>a\<bar>"
| "num_abs F (PyFloat x) = PyFloat (f_abs F x)"

text \<open>
  The comparisons \<open>a < n\<close> and \<open>a == n\<close> with an int literal \<open>n\<close>, which do not raise;
  \<open>a != n\<close> is the negation of \<open>a == n\<close>.
\<close>

fun num_lt_int :: "float_ops \<Rightarrow> number \<Rightarrow> int \<Rightarrow> bool" where
  "num_lt_int F (PyInt a) n = (a < n)"
| "num_lt_int F (PyFloat x) n = f_lt_int F x n"

fun num_eq_int :: "float_ops \<Rightarrow> number \<Rightarrow> int \<Rightarrow> bool" where
  "num_eq_int F (PyInt a) n = (a = n)"
| "num_eq_int F (PyFloat x) n = f_eq_int F x n"

text \<open>The text of a number inside an f-string: decimal digits for an int.\<close>

fun nat_str :: "nat \<Rightarrow> string" where
  "nat_str n =
     (if n < 10 then [''0123456789'' ! n]
      else nat_str (n div 10) @ [''0123456789'' ! (n mod 10)])"

definition int_str :: "int \<Rightarrow> string" where
  "int_str n = (if n < 0 then ''-'' @ nat_str (nat (- n)) else nat_str (nat n))"

fun num_str :: "float_ops \<Rightarrow> number \<Rightarrow> string" where
  "num_str F (PyInt a) = int_str a"
| "num_str F (PyFloat x) = f_str F x"

section \<open>The object store\<close>

text \<open>
  Handles and expressions are mutable objects that are shared between expressions, so
  they live in a store. A handle object is found at its address in \<open>process_objs\<close>.
  An object of class \<open>ProcessExpr\<close> is found in \<open>expr_objs\<close>, as the contents of
  its list \<open>_processes\<close>: a list of references to handle objects. The one list object
  that an expression wraps is identified with the expression, since every expression that
  the operations below construct wraps a list built for it alone. The counters give the
  next unused address; \<open>registries\<close> holds the registry objects, which the operations
  on handles and expressions only read.
\<close>

record heap =
  registries :: "addr \<Rightarrow> Processes"
  process_objs :: "addr \<Rightarrow> Process"
  process_next :: addr
  expr_objs :: "addr \<Rightarrow> addr list"
  expr_next :: addr

text \<open>An operand of an operator is a reference to a handle or to an expression.\<close>

datatype operand = Handle addr | Expr addr

text \<open>Allocation of a handle object, and \<open>copy(p)\<close> for a handle \<open>p\<close>.\<close>

definition new_process :: "heap \<Rightarrow> Process \<Rightarrow> heap \<times> addr" where
  "new_process h p =
     (h\<lparr>process_objs := (process_objs h)(process_next h := p),
        process_next := Suc (process_next h)\<rparr>, process_next h)"

definition copy :: "heap \<Rightarrow> addr \<Rightarrow> heap \<times> addr" where
  "copy h p = new_process h (process_objs h p)"

text \<open>The constructor \<open>ProcessExpr(ps)\<close> for a list built by the caller.\<close>

definition ProcessExpr_init :: "heap \<Rightarrow> addr list \<Rightarrow> heap \<times> addr" where
  "ProcessExpr_init h ps =
     (h\<lparr>expr_objs := (expr_objs h)(expr_next h := ps),
        expr_next := Suc (expr_next h)\<rparr>, expr_next h)"

text \<open>The assignment \<open>p.multiplier = v\<close>.\<close>

definition set_multiplier :: "heap \<Rightarrow> addr \<Rightarrow> number \<Rightarrow> heap" where
  "set_multiplier h p v =
     h\<lparr>process_objs := (process_objs h)(p := (process_objs h p)\<lparr>multiplier := v\<rparr>)\<rparr>"

section \<open>Handles: class Process\<close>

text \<open>\<open>Process.__eq__\<close> for two handles: same index and same registry object.\<close>

definition Process_eq :: "heap \<Rightarrow> addr \<Rightarrow> addr \<Rightarrow> bool" where
  "Process_eq h self other =
     (index (process_objs h self) = index (process_objs h other) \<and>
      parent (process_objs h self) = parent (process_objs h other))"

text \<open>The property \<open>Process.name\<close>.\<close>

definition Process_name :: "heap \<Rightarrow> addr \<Rightarrow> exc + string" where
  "Process_name h self =
     (case py_getitem (reg_processes (registries h (parent (process_objs h self))))
             (index (process_objs h self)) of
        Inl e \<Rightarrow> Inl e
      | Inr process_inner \<Rightarrow> Inr (fst process_inner))"

text \<open>
  \<open>Process.__mul__\<close> and \<open>Process.__rmul__\<close>. The copy is made before the product is
  computed, so it stays in the store when the product raises.
\<close>

definition Process_mul :: "float_ops \<Rightarrow> heap \<Rightarrow> addr \<Rightarrow> number \<Rightarrow> heap \<times> (exc + addr)" where
  "Process_mul F h self other =
     (let (h1, new_proc) = copy h self
      in case num_mul F (multiplier (process_objs h1 new_proc)) other of
           Inl e \<Rightarrow> (h1, Inl e)
         | Inr v \<Rightarrow>
             let h2 = set_multiplier h1 new_proc v;
                 (h3, r) = ProcessExpr_init h2 [new_proc]
             in (h3, Inr r))"

definition Process_rmul :: "float_ops \<Rightarrow> heap \<Rightarrow> addr \<Rightarrow> number \<Rightarrow> heap \<times> (exc + addr)" where
  "Process_rmul F h self other = Process_mul F h self other"


text \<open>\<open>Process.__format__\<close>.\<close>

definition Process_format :: "float_ops \<Rightarrow> heap \<Rightarrow> addr \<Rightarrow> exc + string" where
  "Process_format F h self =
     (let sign = (if num_lt_int F (multiplier (process_objs h self)) 0 then ''- '' else []);
          multiplier_mag = num_abs F (multiplier (process_objs h self))
      in if num_eq_int F multiplier_mag 1
         then (case Process_name h self of
                 Inl e \<Rightarrow> Inl e | Inr name \<Rightarrow> Inr (sign @ name))
         else (case Process_name h self of
                 Inl e \<Rightarrow> Inl e
               | Inr name \<Rightarrow> Inr (sign @ num_str F multiplier_mag @ ''*'' @ name)))"

section \<open>Expressions: class ProcessExpr\<close>

text \<open>
  \<open>ps.index(x)\<close> for a list of handles: the first position whose element is \<open>x\<close>
  itself or equal to it, \<open>None\<close> where Python raises (and where \<open>x in ps\<close> is false).
\<close>

fun list_index :: "heap \<Rightarrow> addr list \<Rightarrow> addr \<Rightarrow> nat option" where
  "list_index h [] x = None"
| "list_index h (e # es) x =
     (if e = x \<or> Process_eq h e x then Some 0 else map_option Suc (list_index h es x))"

text \<open>
  One round of the loops of \<open>ProcessExpr.__add__\<close>: a handle that is not in the list
  of \<open>self\<close> is appended to it (the object itself, not a copy), otherwise its multiplier
  is added to the multiplier of the first equal handle of the list. The second component
  is the exception raised, if any.
\<close>

definition merge_process :: "float_ops \<Rightarrow> heap \<Rightarrow> addr \<Rightarrow> addr \<Rightarrow> heap \<times> exc option" where
  "merge_process F h self process =
     (case list_index h (expr_objs h self) process of
        None \<Rightarrow> (h\<lparr>expr_objs := (expr_objs h)(self := expr_objs h self @ [process])\<rparr>, None)
      | Some i \<Rightarrow>
          let current_process = expr_objs h self ! i
          in case num_add F (multiplier (process_objs h current_process))
                    (multiplier (process_objs h process)) of
               Inl e \<Rightarrow> (h, Some e)
             | Inr v \<Rightarrow> (set_multiplier h current_process v, None))"

text \<open>
  The loop \<open>for process in other._processes\<close>. It runs over the list of \<open>other\<close> as it
  is when the loop starts: a round changes the list of \<open>self\<close> only, and when \<open>other\<close>
  is \<open>self\<close> every handle visited is in the list already, so that nothing is appended.
  The first exception ends the loop.
\<close>

fun merge_all :: "float_ops \<Rightarrow> heap \<Rightarrow> addr \<Rightarrow> addr list \<Rightarrow> heap \<times> exc option" where
  "merge_all F h self [] = (h, None)"
| "merge_all F h self (process # rest) =
     (case merge_process F h self process of
        (h', Some e) \<Rightarrow> (h', Some e)
      | (h', None) \<Rightarrow> merge_all F h' self rest)"

text \<open>The final statement of \<open>__add__\<close>: a new expression of the non-zero terms.\<close>

definition nonzero_terms :: "float_ops \<Rightarrow> heap \<Rightarrow> addr \<Rightarrow> heap \<times> addr" where
  "nonzero_terms F h self =
     ProcessExpr_init h
       [process \<leftarrow> expr_objs h self. \<not> num_eq_int F (multiplier (process_objs h process)) 0]"

text \<open>\<open>ProcessExpr.__add__\<close>.\<close>

definition ProcessExpr_add ::
  "float_ops \<Rightarrow> heap \<Rightarrow> addr \<Rightarrow> operand \<Rightarrow> heap \<times> (exc + addr)" where
  "ProcessExpr_add F h self other =
     (case other of
        Expr ex \<Rightarrow>
          (case py_getitem (expr_objs h ex) 0 of
             Inl e \<Rightarrow> (h, Inl e)
           | Inr other_first \<Rightarrow>
          (case py_getitem (expr_objs h self) 0 of
             Inl e \<Rightarrow> (h, Inl e)
           | Inr self_first \<Rightarrow>
               let expr_parent = parent (process_objs h other_first);
                   self_parent = parent (process_objs h self_first)
               in if self_parent \<noteq> expr_parent
                  then (h, Inl (ValueError
                         ''Combining two exprs from different processes classes''))
                  else (case merge_all F h self (expr_objs h ex) of
                          (h1, Some e) \<Rightarrow> (h1, Inl e)
                        | (h1, None) \<Rightarrow>
                            let (h2, r) = nonzero_terms F h1 self in (h2, Inr r))))
      | Handle p \<Rightarrow>
          (let process_parent = parent (process_objs h p)
           in case py_getitem (expr_objs h self) 0 of
                Inl e \<Rightarrow> (h, Inl e)
              | Inr self_first \<Rightarrow>
                  let self_parent = parent (process_objs h self_first)
                  in if self_parent \<noteq> process_parent
                     then (h, Inl (ValueError
                            ''Combining process and expr from different processes classes''))
                     else let (h1, other_new) = copy h p
                          in case merge_process F h1 self other_new of
                               (h2, Some e) \<Rightarrow> (h2, Inl e)
                             | (h2, None) \<Rightarrow>
                                 let (h3, r) = nonzero_terms F h2 self in (h3, Inr r)))"

text \<open>
  The loop of \<open>ProcessExpr.__mul__\<close>, which replaces the multiplier of one term after
  the other. The first product that raises ends it; the terms before stay multiplied.
\<close>

fun scale_all :: "float_ops \<Rightarrow> heap \<Rightarrow> number \<Rightarrow> addr list \<Rightarrow> heap \<times> exc option" where
  "scale_all F h other [] = (h, None)"
| "scale_all F h other (element # rest) =
     (case num_mul F (multiplier (process_objs h element)) other of
        Inl e \<Rightarrow> (h, Some e)
      | Inr v \<Rightarrow> scale_all F (set_multiplier h element v) other rest)"

text \<open>\<open>ProcessExpr.__mul__\<close>, \<open>__rmul__\<close> and \<open>__neg__\<close>.\<close>

definition ProcessExpr_mul ::
  "float_ops \<Rightarrow> heap \<Rightarrow> addr \<Rightarrow> number \<Rightarrow> heap \<times> (exc + addr)" where
  "ProcessExpr_mul F h self other =
     (if num_eq_int F other 1 then (h, Inr self)
      else case scale_all F h other (expr_objs h self) of
             (h', Some e) \<Rightarrow> (h', Inl e)
           | (h', None) \<Rightarrow> (h', Inr self))"

definition ProcessExpr_rmul ::
  "float_ops \<Rightarrow> heap \<Rightarrow> addr \<Rightarrow> number \<Rightarrow> heap \<times> (exc + addr)" where
  "ProcessExpr_rmul F h self other = ProcessExpr_mul F h self other"


text \<open>
  The operators \<open>x * k\<close> and \<open>- x\<close> call the method of the class of \<open>x\<close>. Both
  return an expression.
\<close>

definition py_mul :: "float_ops \<Rightarrow> heap \<Rightarrow> operand \<Rightarrow> number \<Rightarrow> heap \<times> (exc + addr)" where
  "py_mul F h x k =
     (case x of Handle p \<Rightarrow> Process_mul F h p k | Expr e \<Rightarrow> ProcessExpr_mul F h e k)"



text \<open>\<open>Process.__add__\<close>: \<open>self * 1 + other * 1\<close>, the left product first.\<close>

definition Process_add ::
  "float_ops \<Rightarrow> heap \<Rightarrow> addr \<Rightarrow> operand \<Rightarrow> heap \<times> (exc + addr)" where
  "Process_add F h self other =
     (case Process_mul F h self 1 of
        (h1, Inl e) \<Rightarrow> (h1, Inl e)
      | (h1, Inr a) \<Rightarrow>
          (case py_mul F h1 other 1 of
             (h2, Inl e) \<Rightarrow> (h2, Inl e)
           | (h2, Inr b) \<Rightarrow> ProcessExpr_add F h2 a (Expr b)))"


text \<open>The operators \<open>x + y\<close> and \<open>x - y\<close> call the method of the class of \<open>x\<close>.\<close>

definition py_add :: "float_ops \<Rightarrow> heap \<Rightarrow> operand \<Rightarrow> operand \<Rightarrow> heap \<times> (exc + addr)" where
  "py_add F h x y =
     (case x of Handle p \<Rightarrow> Process_add F h p y | Expr e \<Rightarrow> ProcessExpr_add F h e y)"



definition ProcessExpr_getitem :: "heap \<Rightarrow> addr \<Rightarrow> int \<Rightarrow> exc + addr" where
  "ProcessExpr_getitem h self arg = py_getitem (expr_objs h self) arg"

text \<open>
  \<open>sep.join(xs)\<close>, and \<open>s.replace(old, new)\<close>: the occurrences of \<open>old\<close> are
  replaced from left to right, the search going on after each occurrence replaced. For
  an empty \<open>old\<close> Python puts \<open>new\<close> before every character and at the end.
\<close>

fun py_join :: "string \<Rightarrow> string list \<Rightarrow> string" where
  "py_join sep [] = []"
| "py_join sep [x] = x"
| "py_join sep (x # y # ys) = x @ sep @ py_join sep (y # ys)"

fun replace_from :: "string \<Rightarrow> string \<Rightarrow> string \<Rightarrow> string" where
  "replace_from old new [] = []"
| "replace_from old new (c # cs) =
     (if take (length old) (c # cs) = old
      then new @ replace_from old new (drop (length old - 1) cs)
      else c # replace_from old new cs)"

definition py_replace :: "string \<Rightarrow> string \<Rightarrow> string \<Rightarrow> string" where
  "py_replace s old new =
     (if old = [] then new @ concat (map (\<lambda>c. c # new) s) else replace_from old new s)"

text \<open>
  \<open>map(format, ps)\<close> consumed by \<open>join\<close>: the terms are rendered in order, and the
  first exception ends the call.
\<close>

fun map_format :: "(addr \<Rightarrow> exc + string) \<Rightarrow> addr list \<Rightarrow> exc + string list" where
  "map_format f [] = Inr []"
| "map_format f (p # ps) =
     (case f p of
        Inl e \<Rightarrow> Inl e
      | Inr s \<Rightarrow> (case map_format f ps of Inl e \<Rightarrow> Inl e | Inr ss \<Rightarrow> Inr (s # ss)))"

text \<open>\<open>ProcessExpr.__format__\<close>.\<close>

definition ProcessExpr_format :: "float_ops \<Rightarrow> heap \<Rightarrow> addr \<Rightarrow> exc + string" where
  "ProcessExpr_format F h self =
     (case map_format (Process_format F h) (expr_objs h self) of
        Inl e \<Rightarrow> Inl e
      | Inr rendered \<Rightarrow>
          let formatted_string = py_join '' + '' rendered
          in Inr (py_replace formatted_string ''+ -'' ''-''))"

section \<open>An example store\<close>

text \<open>
  Registry 0 defines Steel and Coal, registry 1 defines Iron. The handles 0, 1 and 2 are
  the ones that the registries return for these three definitions. No expression has
  been built yet.
\<close>

definition example_heap :: heap where
  "example_heap =
     \<lparr>registries = (\<lambda>a. Processes_init)
        (0 := \<lparr>reg_processes = [(''Steel'', [2]), (''Coal'', [0, 3])],
                reg_process_produces = None\<rparr>,
         1 := \<lparr>reg_processes = [(''Iron'', [1])], reg_process_produces = None\<rparr>),
      process_objs = (\<lambda>a. Process_init 0 0)
        (0 := Process_init 0 0, 1 := Process_init 1 0, 2 := Process_init 0 1),
      process_next = 3,
      expr_objs = (\<lambda>a. []),
      expr_next = 0\<rparr>"

section \<open>Notions used in the statements\<close>

text \<open>The terms of an expression, as values: the handle objects that its list refers to.\<close>

definition terms_of :: "heap \<Rightarrow> addr \<Rightarrow> Process list" where
  "terms_of h E = map (process_objs h) (expr_objs h E)"

text \<open>
  The registry an operand traces back to: the parent of the handle, or the parent of the
  first term of a non-empty expression (the only term that \<open>__add__\<close> looks at).
\<close>

definition owner :: "heap \<Rightarrow> operand \<Rightarrow> addr" where
  "owner h x =
     (case x of
        Handle p \<Rightarrow> parent (process_objs h p)
      | Expr e \<Rightarrow> parent (process_objs h (hd (expr_objs h e))))"

text \<open>
  An operand that refers to allocated objects: a handle of the store, or a non-empty
  expression of the store whose terms are handles of the store.
\<close>

definition valid_operand :: "heap \<Rightarrow> operand \<Rightarrow> bool" where
  "valid_operand h x =
     (case x of
        Handle p \<Rightarrow> p < process_next h
      | Expr e \<Rightarrow> e < expr_next h \<and> expr_objs h e \<noteq> [] \<and>
          list_all (\<lambda>p. p < process_next h) (expr_objs h e))"

text \<open>Every object of the store \<open>h\<close> is the same in the store \<open>h'\<close>.\<close>

definition unchanged :: "heap \<Rightarrow> heap \<Rightarrow> bool" where
  "unchanged h h' =
     ((\<forall>p<process_next h. process_objs h' p = process_objs h p) \<and>
      (\<forall>e<expr_next h. expr_objs h' e = expr_objs h e) \<and>
      registries h' = registries h)"

section \<open>Facts about the built-ins\<close>

lemma py_max_nonempty: "xs \<noteq> [] \<Longrightarrow> py_max xs = Inr (Max (set xs))"
  by (cases xs) (simp_all add: py_max_def Max.set_eq_fold[symmetric])

lemma results_eq_filter:
  "[i. (i, (name, a)) \<leftarrow> enumerate 0 ps, name = arg] =
   filter (\<lambda>i. fst (ps ! i) = arg) [0..<length ps]"
proof (induction ps rule: rev_induct)
  case Nil
  then show ?case by simp
next
  case (snoc x xs)
  have "filter (\<lambda>i. fst ((xs @ [x]) ! i) = arg) [0..<length xs] =
        filter (\<lambda>i. fst (xs ! i) = arg) [0..<length xs]"
    by (rule filter_cong) (auto simp: nth_append)
  with snoc show ?case
    by (cases x) (auto simp: enumerate_append_eq)
qed

lemma filter_upt_two:
  assumes "i < j" "j < n" "P i" "P j"
  shows "length (filter P [0..<n]) > 1"
proof -
  have a: "[0..<n] = [0..<j] @ j # [Suc j..<n]"
  proof -
    have e: "j + (n - j) = n" using assms(2) by arith
    have "[0..<j + (n - j)] = [0..<j] @ [j..<j + (n - j)]"
      by (rule upt_add_eq_append) simp
    then have "[0..<n] = [0..<j] @ [j..<n]" by (simp only: e)
    moreover have "[j..<n] = j # [Suc j..<n]"
      using assms(2) by (rule upt_conv_Cons)
    ultimately show ?thesis by (simp only:)
  qed
  have "i \<in> set (filter P [0..<j])" using assms by simp
  then have "filter P [0..<j] \<noteq> []" by (metis empty_iff list.set(1))
  then have "length (filter P [0..<j]) > 0" by (rule length_greater_0_conv[THEN iffD2])
  moreover have "length (filter P [0..<n]) = length (filter P [0..<j]) + length (filter P (j # [Suc j..<n]))"
    by (subst a) simp
  moreover have "length (filter P (j # [Suc j..<n])) > 0" using assms(4) by simp
  ultimately show ?thesis by linarith
qed

lemma filter_upt_none:
  "(\<forall>i<n. \<not> P i) \<Longrightarrow> filter P [0..<n] = []"
  by (simp add: filter_empty_conv)

lemma filter_upt_unique:
  assumes "i < n" "P i" "\<forall>j<n. P j \<longrightarrow> j = i"
  shows "filter P [0..<n] = [i]"
proof -
  have a: "[0..<n] = [0..<i] @ i # [Suc i..<n]"
  proof -
    have e: "i + (n - i) = n" using assms(1) by arith
    have "[0..<i + (n - i)] = [0..<i] @ [i..<i + (n - i)]"
      by (rule upt_add_eq_append) simp
    then have "[0..<n] = [0..<i] @ [i..<n]" by (simp only: e)
    moreover have "[i..<n] = i # [Suc i..<n]"
      using assms(1) by (rule upt_conv_Cons)
    ultimately show ?thesis by (simp only:)
  qed
  have c: "filter P [0..<i] = []"
  proof (rule filter_False, intro ballI notI)
    fix x assume "x \<in> set [0..<i]" and px: "P x"
    then have "x < i" by simp
    moreover from this assms(1) have "x < n" by (rule less_trans)
    ultimately show False using assms(3) px by blast
  qed
  have d: "filter P [Suc i..<n] = []"
  proof (rule filter_False, intro ballI notI)
    fix x assume "x \<in> set [Suc i..<n]" and px: "P x"
    then have "i < x" "x < n" by simp_all
    then show False using assms(3) px by blast
  qed
  have "filter P [0..<n] = filter P [0..<i] @ filter P (i # [Suc i..<n])"
    by (subst a) (rule filter_append)
  then show ?thesis
    using c d assms(2) by simp
qed

lemma np_zeros_nth: "i < n \<Longrightarrow> np_zeros n ! i = 0"
  by (simp add: np_zeros_def)

section \<open>Facts about the conversion of ints to floats\<close>

declare bit_length.simps [simp del]

lemma bit_length_between:
  "2 ^ k \<le> n \<Longrightarrow> n < 2 ^ Suc k \<Longrightarrow> bit_length n = Suc k"
proof (induction k arbitrary: n)
  case 0
  then have "n = 1" by simp
  then show ?case by (simp add: bit_length.simps[of "Suc 0"] bit_length.simps[of 0])
next
  case (Suc k)
  have "(0::nat) < 2 ^ Suc k" by simp
  with Suc.prems(1) have n0: "n \<noteq> 0" by linarith
  have "2 ^ k \<le> n div 2" using Suc.prems(1) by simp
  moreover have "n div 2 < 2 ^ Suc k" using Suc.prems(2) by simp
  ultimately have "bit_length (n div 2) = Suc k" by (rule Suc.IH)
  then show ?case using n0 by (subst bit_length.simps) simp
qed

lemma bit_length_small: "n < 2 ^ k \<Longrightarrow> bit_length n \<le> k"
proof (induction k arbitrary: n)
  case 0
  then show ?case by (simp add: bit_length.simps[of 0])
next
  case (Suc k)
  show ?case
  proof (cases "n = 0")
    case True
    then show ?thesis by (simp add: bit_length.simps[of 0])
  next
    case False
    have "n div 2 < 2 ^ k" using Suc.prems by simp
    then have "bit_length (n div 2) \<le> k" by (rule Suc.IH)
    then show ?thesis using False by (subst bit_length.simps) simp
  qed
qed

text \<open>An int of at most 53 bits is converted without rounding.\<close>

lemma int_to_float64_exact:
  assumes "\<bar>n\<bar> < 2 ^ 53"
  shows "int_to_float64 n = real_of_int n"
proof -
  have "nat \<bar>n\<bar> < 2 ^ 53" using assms by (simp add: nat_less_iff)
  then have "bit_length (nat \<bar>n\<bar>) \<le> 53" by (rule bit_length_small)
  then have s: "bit_length (nat \<bar>n\<bar>) - 53 = 0" by simp
  have "real_of_int (sgn n) * real (nat \<bar>n\<bar>) = real_of_int n"
    by (cases "n < 0") (simp_all add: sgn_if)
  then show ?thesis
    by (simp add: int_to_float64_def Let_def s)
qed

text \<open>The int \<open>2^53 + 1\<close> is halfway between two floats and goes to the even one.\<close>

lemma int_to_float64_odd: "int_to_float64 (2 ^ 53 + 1) = 2 ^ 53"
proof -
  have a: "nat \<bar>2 ^ 53 + 1 :: int\<bar> = 2 ^ 53 + 1"
    by (simp add: nat_add_distrib nat_power_eq)
  have "bit_length 9007199254740993 = Suc 53"
    by (rule bit_length_between) simp_all
  then have s: "bit_length 9007199254740993 - 53 = 1" by simp
  show ?thesis
    by (simp add: int_to_float64_def Let_def a s)
qed

section \<open>Facts about numbers and the store\<close>

lemma to_float_small: "\<bar>n\<bar> < 2 ^ 53 \<Longrightarrow> to_float n = Inr (real_of_int n)"
  by (simp add: to_float_def int_too_large_def int_to_float64_exact)

lemma to_float_raises:
  "to_float n = Inl e \<Longrightarrow> e = OverflowError ''int too large to convert to float''"
  by (simp add: to_float_def split: if_splits)

lemma num_mul_raises:
  "num_mul F a b = Inl e \<Longrightarrow> e = OverflowError ''int too large to convert to float''"
  by (cases a; cases b) (auto dest: to_float_raises split: sum.splits)

lemma num_add_raises:
  "num_add F a b = Inl e \<Longrightarrow> e = OverflowError ''int too large to convert to float''"
  by (cases a; cases b) (auto dest: to_float_raises split: sum.splits)

lemma num_mul_small: "\<bar>n\<bar> < 2 ^ 53 \<Longrightarrow> \<exists>v. num_mul F m (PyInt n) = Inr v"
  by (cases m) (simp_all add: to_float_small)

lemma num_mul_one: "\<exists>v. num_mul F m 1 = Inr v"
  unfolding one_number_def by (rule num_mul_small) simp

lemma num_mul_minus_one: "\<exists>v. num_mul F m (PyInt (- 1)) = Inr v"
  by (rule num_mul_small) simp

lemma num_mul_int_one: "num_mul F (PyInt a) 1 = Inr (PyInt a)"
  by (simp add: one_number_def)

lemma set_multiplier_fields [simp]:
  "process_objs (set_multiplier h p v) = (process_objs h)(p := (process_objs h p)\<lparr>multiplier := v\<rparr>)"
  "expr_objs (set_multiplier h p v) = expr_objs h"
  "process_next (set_multiplier h p v) = process_next h"
  "expr_next (set_multiplier h p v) = expr_next h"
  "registries (set_multiplier h p v) = registries h"
  by (simp_all add: set_multiplier_def)

lemma py_getitem_first: "xs \<noteq> [] \<Longrightarrow> py_getitem xs 0 = Inr (hd xs)"
  by (cases xs) (simp_all add: py_getitem_def)


text \<open>What \<open>p * k\<close> returns and leaves in the store when the product is defined.\<close>

lemma Process_mul_eq:
  "num_mul F (multiplier (process_objs h p)) k = Inr v \<Longrightarrow>
   Process_mul F h p k =
     (h\<lparr>process_objs := (process_objs h)
           (process_next h := (process_objs h p)\<lparr>multiplier := v\<rparr>),
        process_next := Suc (process_next h),
        expr_objs := (expr_objs h)(expr_next h := [process_next h]),
        expr_next := Suc (expr_next h)\<rparr>, Inr (expr_next h))"
  by (simp add: Process_mul_def copy_def new_process_def ProcessExpr_init_def set_multiplier_def)

lemma ProcessExpr_mul_one: "ProcessExpr_mul F h e 1 = (h, Inr e)"
  by (simp add: ProcessExpr_mul_def one_number_def)

lemma valid_expr_hd:
  "valid_operand h (Expr b) \<Longrightarrow> hd (expr_objs h b) < process_next h"
  by (cases "expr_objs h b") (simp_all add: valid_operand_def)

section \<open>Defining one process\<close>

lemma float64_float: "float64 (PyFloat x) = Inr x"
  by (simp add: float64_def)

lemma float64_small_int: "\<bar>n\<bar> < 2 ^ 53 \<Longrightarrow> float64 (PyInt n) = Inr (real_of_int n)"
  by (simp add: float64_def int_too_large_def int_to_float64_exact)

lemma float64_raises:
  "float64 v = Inl e \<Longrightarrow> e = OverflowError ''int too large to convert to float''"
  by (cases v) (auto simp: float64_def split: if_splits)

lemma store_quantities_length:
  "store_quantities resources a = Inr array \<Longrightarrow> length array = length a"
proof (induction resources arbitrary: a)
  case Nil
  then show ?case by simp
next
  case (Cons p rest)
  obtain res v where p: "p = (res, v)" by (cases p)
  from Cons.prems obtain x where "float64 v = Inr x"
    and "store_quantities rest (a[res_index res := x]) = Inr array"
    by (auto simp: p split: sum.splits)
  with Cons.IH show ?case by fastforce
qed

lemma store_quantities_converts:
  assumes "\<forall>p\<in>set resources. \<exists>x. float64 (snd p) = Inr x"
  shows "\<exists>array. store_quantities resources a = Inr array"
  using assms
proof (induction resources arbitrary: a)
  case Nil
  then show ?case by simp
next
  case (Cons p rest)
  obtain res v where p: "p = (res, v)" by (cases p)
  from Cons.prems obtain x where x: "float64 v = Inr x" by (auto simp: p)
  from Cons.prems have "\<forall>p\<in>set rest. \<exists>x. float64 (snd p) = Inr x" by simp
  from Cons.IH[OF this] show ?case by (simp add: p x)
qed

lemma store_quantities_fails:
  assumes "\<exists>p\<in>set resources. \<forall>x. float64 (snd p) \<noteq> Inr x"
  shows "store_quantities resources a =
    Inl (OverflowError ''int too large to convert to float'')"
  using assms
proof (induction resources arbitrary: a)
  case Nil
  then show ?case by simp
next
  case (Cons p rest)
  obtain res v where p: "p = (res, v)" by (cases p)
  show ?case
  proof (cases "float64 v")
    case (Inl e)
    then show ?thesis using float64_raises[OF Inl] by (simp add: p)
  next
    case (Inr x)
    with Cons.prems have "\<exists>p\<in>set rest. \<forall>x. float64 (snd p) \<noteq> Inr x" by (auto simp: p)
    from Cons.IH[OF this] show ?thesis by (simp add: p Inr)
  qed
qed

lemma store_quantities_nth:
  assumes "store_quantities resources a = Inr array" and "i < length a"
  shows "case map_of (rev (map (\<lambda>(resource, v). (res_index resource, v)) resources)) i of
           None \<Rightarrow> array ! i = a ! i
         | Some v \<Rightarrow> float64 v = Inr (array ! i)"
  using assms
proof (induction resources arbitrary: a)
  case Nil
  then show ?case by simp
next
  case (Cons p rest)
  obtain res v where p: "p = (res, v)" by (cases p)
  from Cons.prems(1) obtain x where x: "float64 v = Inr x"
    and rest: "store_quantities rest (a[res_index res := x]) = Inr array"
    by (auto simp: p split: sum.splits)
  have len: "i < length (a[res_index res := x])" using Cons.prems(2) by simp
  note ih = Cons.IH[OF rest len]
  show ?case
  proof (cases "map_of (rev (map (\<lambda>(resource, v). (res_index resource, v)) rest)) i")
    case None
    with ih have e: "array ! i = a[res_index res := x] ! i" by simp
    show ?thesis
    proof (cases "res_index res = i")
      case True
      with e Cons.prems(2) have "array ! i = x" by simp
      with None True x show ?thesis by (simp add: p map_add_def)
    next
      case False
      with e have "array ! i = a ! i" by simp
      with None False show ?thesis by (simp add: p map_add_def)
    qed
  next
    case (Some w)
    with ih have "float64 w = Inr (array ! i)" by simp
    with Some show ?thesis by (simp add: p map_add_def)
  qed
qed

text \<open>
  Claim C2, as stated, lets every call with at least one pair append a definition that
  holds the quantities supplied. The vector is a \<open>float64\<close> array: the int \<open>10^400\<close>
  cannot be stored, the call raises \<open>OverflowError\<close> and appends nothing; and the int
  \<open>2^53 + 1\<close> is stored as \<open>2^53\<close>.
\<close>

theorem create_stores_float64:
  "create 0 Processes_init ''X'' [(\<lparr>res_index = 0\<rparr>, PyInt (10 ^ 400))] =
     (Processes_init, Inl (OverflowError ''int too large to convert to float'')) \<and>
   create 0 Processes_init ''X'' [(\<lparr>res_index = 0\<rparr>, PyInt (2 ^ 53 + 1))] =
     (\<lparr>reg_processes = [(''X'', [2 ^ 53])], reg_process_produces = None\<rparr>,
      Inr \<lparr>parent = 0, index = 0, multiplier = 1\<rparr>)"
proof -
  have big: "float64 (PyInt (10 ^ 400)) =
      Inl (OverflowError ''int too large to convert to float'')"
    by (simp add: float64_def int_too_large_def)
  have "\<not> int_too_large (2 ^ 53 + 1)"
    by (simp add: int_too_large_def)
  then have odd: "float64 (PyInt (2 ^ 53 + 1)) = Inr (2 ^ 53)"
    using int_to_float64_odd by (simp add: float64_def)
  have f: "create 0 Processes_init ''X'' [(\<lparr>res_index = 0\<rparr>, v)] = (Processes_init, Inl e)"
    if "float64 v = Inl e" for v e
    using that by (simp add: create_def py_max_def)
  have g: "create 0 Processes_init ''X'' [(\<lparr>res_index = 0\<rparr>, v)] =
     (\<lparr>reg_processes = [(''X'', [x])], reg_process_produces = None\<rparr>,
      Inr \<lparr>parent = 0, index = 0, multiplier = 1\<rparr>)"
    if "float64 v = Inr x" for v x
    using that
    by (simp add: create_def py_max_def np_zeros_def Processes_init_def Process_init_def)
  from f[OF big] g[OF odd] show ?thesis by (intro conjI)
qed

text \<open>
  Claim C2, amended. A call of \<open>create\<close> with no (resource, quantity) pair raises
  \<open>ValueError\<close> and leaves the registry as it was. A call in which some quantity
  cannot be converted to a \<open>float64\<close> raises \<open>OverflowError\<close> and leaves the registry
  as it was. Every other call appends exactly one definition, whose vector has length
  (largest supplied resource index + 1) and holds, at every supplied index, the
  \<open>float64\<close> value of the last quantity supplied for that index and zero elsewhere, and
  it returns a handle at the new last position with multiplier 1. The \<open>float64\<close> value
  of a float is the float itself, and that of an int below \<open>2^53\<close> in magnitude is the
  int.
\<close>

theorem create_spec:
  "create self r name [] = (r, Inl (ValueError (''No resources attached to '' @ name))) \<and>
   (resources \<noteq> [] \<and> (\<exists>p\<in>set resources. \<forall>x. float64 (snd p) \<noteq> Inr x) \<longrightarrow>
      create self r name resources =
        (r, Inl (OverflowError ''int too large to convert to float''))) \<and>
   (resources \<noteq> [] \<and> (\<forall>p\<in>set resources. \<exists>x. float64 (snd p) = Inr x) \<longrightarrow>
     (\<exists>array.
        create self r name resources =
          (r\<lparr>reg_processes := reg_processes r @ [(name, array)]\<rparr>,
           Inr \<lparr>parent = self, index = int (length (reg_processes r)), multiplier = 1\<rparr>) \<and>
        length array = Max (set (map (\<lambda>(resource, v). res_index resource) resources)) + 1 \<and>
        (\<forall>i<length array.
           case map_of (rev (map (\<lambda>(resource, v). (res_index resource, v)) resources)) i of
             None \<Rightarrow> array ! i = 0
           | Some v \<Rightarrow> float64 v = Inr (array ! i)))) \<and>
   float64 (PyFloat x) = Inr x \<and>
   (\<bar>n\<bar> < 2 ^ 53 \<longrightarrow> float64 (PyInt n) = Inr (real_of_int n))"
proof (intro conjI impI)
  show "create self r name [] = (r, Inl (ValueError (''No resources attached to '' @ name)))"
    by (simp add: create_def)
next
  assume a: "resources \<noteq> [] \<and> (\<exists>p\<in>set resources. \<forall>x. float64 (snd p) \<noteq> Inr x)"
  let ?m = "Max (set (map (\<lambda>(resource, v). res_index resource) resources))"
  have mx: "py_max (map (\<lambda>(resource, v). res_index resource) resources) = Inr ?m"
    using a by (simp add: py_max_nonempty)
  have "store_quantities resources (np_zeros (Suc ?m)) =
      Inl (OverflowError ''int too large to convert to float'')"
    using a by (intro store_quantities_fails) simp
  with a show "create self r name resources =
        (r, Inl (OverflowError ''int too large to convert to float''))"
    by (simp add: create_def mx)
next
  assume a: "resources \<noteq> [] \<and> (\<forall>p\<in>set resources. \<exists>x. float64 (snd p) = Inr x)"
  let ?m = "Max (set (map (\<lambda>(resource, v). res_index resource) resources))"
  have mx: "py_max (map (\<lambda>(resource, v). res_index resource) resources) = Inr ?m"
    using a by (simp add: py_max_nonempty)
  from a obtain array where st: "store_quantities resources (np_zeros (?m + 1)) = Inr array"
    using store_quantities_converts[of resources "np_zeros (?m + 1)"] by blast
  from st have st': "store_quantities resources (np_zeros (Suc ?m)) = Inr array" by simp
  have c: "create self r name resources =
          (r\<lparr>reg_processes := reg_processes r @ [(name, array)]\<rparr>,
           Inr \<lparr>parent = self, index = int (length (reg_processes r)), multiplier = 1\<rparr>)"
    using a st' by (simp add: create_def mx Process_init_def)
  have l: "length array = ?m + 1"
    using store_quantities_length[OF st] by (simp add: np_zeros_def)
  have n: "\<forall>i<length array.
           case map_of (rev (map (\<lambda>(resource, v). (res_index resource, v)) resources)) i of
             None \<Rightarrow> array ! i = 0
           | Some v \<Rightarrow> float64 v = Inr (array ! i)"
  proof (intro allI impI)
    fix i assume "i < length array"
    then have i: "i < ?m + 1" by (simp only: l)
    then have il: "i < length (np_zeros (?m + 1))" by (simp add: np_zeros_def)
    have z: "np_zeros (?m + 1) ! i = 0" using i by (rule np_zeros_nth)
    from store_quantities_nth[OF st il]
    show "case map_of (rev (map (\<lambda>(resource, v). (res_index resource, v)) resources)) i of
             None \<Rightarrow> array ! i = 0
           | Some v \<Rightarrow> float64 v = Inr (array ! i)"
      by (simp only: z)
  qed
  from c l n show "\<exists>array.
        create self r name resources =
          (r\<lparr>reg_processes := reg_processes r @ [(name, array)]\<rparr>,
           Inr \<lparr>parent = self, index = int (length (reg_processes r)), multiplier = 1\<rparr>) \<and>
        length array = ?m + 1 \<and>
        (\<forall>i<length array.
           case map_of (rev (map (\<lambda>(resource, v). (res_index resource, v)) resources)) i of
             None \<Rightarrow> array ! i = 0
           | Some v \<Rightarrow> float64 v = Inr (array ! i))"
    by (intro exI[of _ array] conjI)
next
  show "float64 (PyFloat x) = Inr x" by (rule float64_float)
next
  assume "\<bar>n\<bar> < 2 ^ 53"
  then show "float64 (PyInt n) = Inr (real_of_int n)" by (rule float64_small_int)
qed

text \<open>
  The theorem at a call with three pairs, two of them for resource 0 (the floats 2 and 7
  and the int 5), and at a call with the int \<open>10^400\<close>.
\<close>

theorem create_spec_witness:
  "(\<exists>array.
      create 0 Processes_init ''Steel''
        [(\<lparr>res_index = 0\<rparr>, PyFloat 2), (\<lparr>res_index = 2\<rparr>, PyInt 5),
         (\<lparr>res_index = 0\<rparr>, PyFloat 7)] =
       (\<lparr>reg_processes = [(''Steel'', array)], reg_process_produces = None\<rparr>,
        Inr \<lparr>parent = 0, index = 0, multiplier = 1\<rparr>) \<and>
      length array = 3 \<and> array ! 0 = 7 \<and> array ! 1 = 0 \<and> array ! 2 = 5) \<and>
   create 0 Processes_init ''Steel''
     [(\<lparr>res_index = 0\<rparr>, PyFloat 2), (\<lparr>res_index = 1\<rparr>, PyInt (10 ^ 400))] =
     (Processes_init, Inl (OverflowError ''int too large to convert to float''))"
proof -
  let ?res = "[(\<lparr>res_index = 0\<rparr>, PyFloat 2), (\<lparr>res_index = 2\<rparr>, PyInt 5),
         (\<lparr>res_index = 0\<rparr>, PyFloat 7)]"
  let ?bad = "[(\<lparr>res_index = 0\<rparr>, PyFloat 2), (\<lparr>res_index = 1\<rparr>, PyInt (10 ^ 400))]"
  have f5: "float64 (PyInt 5) = Inr 5"
    using float64_small_int[of 5] by simp
  have h: "?res \<noteq> [] \<and> (\<forall>p\<in>set ?res. \<exists>x. float64 (snd p) = Inr x)"
    by (simp add: float64_float f5)
  from create_spec[of 0 Processes_init "''Steel''" ?res, THEN conjunct2, THEN conjunct2,
      THEN conjunct1, THEN mp, OF h]
  obtain array where
    c: "create 0 Processes_init ''Steel'' ?res =
          (Processes_init\<lparr>reg_processes := reg_processes Processes_init @ [(''Steel'', array)]\<rparr>,
           Inr \<lparr>parent = 0, index = int (length (reg_processes Processes_init)),
             multiplier = 1\<rparr>)"
    and l: "length array = Max (set (map (\<lambda>(resource, v). res_index resource) ?res)) + 1"
    and n: "\<forall>i<length array.
           case map_of (rev (map (\<lambda>(resource, v). (res_index resource, v)) ?res)) i of
             None \<Rightarrow> array ! i = 0
           | Some v \<Rightarrow> float64 v = Inr (array ! i)"
    by blast
  have l3: "length array = 3" using l by simp
  have a0: "array ! 0 = 7" using n[rule_format, of 0] l3 by (simp add: float64_float)
  have a1: "array ! 1 = 0" using n[rule_format, of 1] l3 by simp
  have a2: "array ! 2 = 5" using n[rule_format, of 2] l3 by (simp add: f5)
  have c': "create 0 Processes_init ''Steel'' ?res =
       (\<lparr>reg_processes = [(''Steel'', array)], reg_process_produces = None\<rparr>,
        Inr \<lparr>parent = 0, index = 0, multiplier = 1\<rparr>)"
    unfolding c by (simp add: Processes_init_def)
  have big: "float64 (PyInt (10 ^ 400)) \<noteq> Inr x" for x
    by (simp add: float64_def int_too_large_def)
  have hb: "?bad \<noteq> [] \<and> (\<exists>p\<in>set ?bad. \<forall>x. float64 (snd p) \<noteq> Inr x)"
    using big by simp
  have d: "create 0 Processes_init ''Steel'' ?bad =
     (Processes_init, Inl (OverflowError ''int too large to convert to float''))"
    using create_spec[of 0 Processes_init "''Steel''" ?bad, THEN conjunct2,
      THEN conjunct1, THEN mp, OF hb] .
  from c' l3 a0 a1 a2 have "\<exists>array.
      create 0 Processes_init ''Steel'' ?res =
       (\<lparr>reg_processes = [(''Steel'', array)], reg_process_produces = None\<rparr>,
        Inr \<lparr>parent = 0, index = 0, multiplier = 1\<rparr>) \<and>
      length array = 3 \<and> array ! 0 = 7 \<and> array ! 1 = 0 \<and> array ! 2 = 5"
    by (intro exI[of _ array] conjI)
  with d show ?thesis by (intro conjI)
qed

section \<open>Lookup by position\<close>

lemma getitem_int_in_range:
  "arg < int (length (reg_processes r)) \<Longrightarrow>
   getitem self r (IntKey arg) = Inr \<lparr>parent = self, index = arg, multiplier = 1\<rparr>"
  by (simp add: Process_init_def)

lemma getitem_int_beyond:
  "int (length (reg_processes r)) \<le> arg \<Longrightarrow>
   getitem self r (IntKey arg) = Inl (IndexError ''list index out of range'')"
  by simp

text \<open>
  Claim C4. Positional lookup is stated to fail for every position outside
  \<open>[0, count)\<close>, negative positions included. The guard of \<open>__getitem__\<close> only
  compares the position with the count from above: on the registry with the two
  definitions Steel and Coal, position \<open>-1\<close> yields a handle with index \<open>-1\<close>, which
  the membership test \<open>__contains__\<close> of the same registry then rejects.
\<close>

theorem getitem_negative_position:
  "getitem 0 \<lparr>reg_processes = [(''Steel'', [2]), (''Coal'', [0, 3])], reg_process_produces = None\<rparr>
     (IntKey (- 1)) = Inr \<lparr>parent = 0, index = - 1, multiplier = 1\<rparr> \<and>
   \<not> contains 0 \<lparr>reg_processes = [(''Steel'', [2]), (''Coal'', [0, 3])], reg_process_produces = None\<rparr>
     \<lparr>parent = 0, index = - 1, multiplier = 1\<rparr>"
  by (simp add: Process_init_def contains_def len_def)

section \<open>Lookup by name\<close>

lemma getitem_str_filter:
  "getitem self r (StrKey arg) =
     (let results = filter (\<lambda>i. fst (reg_processes r ! i) = arg) [0..<length (reg_processes r)]
      in if length results = 0 then Inl (KeyError ([CHR 0x27] @ arg @ [CHR 0x27]))
         else if length results > 1
           then Inl (KeyError (''Name '' @ arg @ '' non unique: please use index''))
         else Inr (Process_init (int (results ! 0)) self))"
  by (simp only: getitem.simps results_eq_filter)

text \<open>
  Claim C5, as stated, makes the failure for an ambiguous name an error kind distinct from
  the one for a missing name. Both failures raise the same exception class, \<open>KeyError\<close>:
  a name that matches nothing and a name that matches twice.
\<close>

theorem getitem_name_errors_same_class:
  "getitem 0 \<lparr>reg_processes = [(''Coal'', [0, 3])], reg_process_produces = None\<rparr> (StrKey ''Steel'')
     = Inl (KeyError ([CHR 0x27] @ ''Steel'' @ [CHR 0x27])) \<and>
   getitem 0 \<lparr>reg_processes = [(''Steel'', [2]), (''Steel'', [0, 3])], reg_process_produces = None\<rparr>
     (StrKey ''Steel'') = Inl (KeyError ''Name Steel non unique: please use index'') \<and>
   exc_type (KeyError ([CHR 0x27] @ ''Steel'' @ [CHR 0x27])) =
     exc_type (KeyError ''Name Steel non unique: please use index'')"
  by simp

text \<open>
  Claim C5, amended. Lookup by name returns the handle of the matching definition when
  exactly one definition has that name; it raises \<open>KeyError\<close> with the quoted name as
  message when none has it, and \<open>KeyError\<close> with the message
  \<open>Name <name> non unique: please use index\<close> when more than one has it. The two
  failures have the same exception class and differ in their message only.
\<close>

theorem getitem_name_spec:
  "(\<forall>i. i < length (reg_processes r) \<and> fst (reg_processes r ! i) = arg \<and>
        (\<forall>j<length (reg_processes r). fst (reg_processes r ! j) = arg \<longrightarrow> j = i) \<longrightarrow>
        getitem self r (StrKey arg) = Inr \<lparr>parent = self, index = int i, multiplier = 1\<rparr>) \<and>
   ((\<forall>i<length (reg_processes r). fst (reg_processes r ! i) \<noteq> arg) \<longrightarrow>
        getitem self r (StrKey arg) = Inl (KeyError ([CHR 0x27] @ arg @ [CHR 0x27]))) \<and>
   ((\<exists>i j. i < j \<and> j < length (reg_processes r) \<and>
            fst (reg_processes r ! i) = arg \<and> fst (reg_processes r ! j) = arg) \<longrightarrow>
        getitem self r (StrKey arg) =
          Inl (KeyError (''Name '' @ arg @ '' non unique: please use index''))) \<and>
   exc_type (KeyError ([CHR 0x27] @ arg @ [CHR 0x27])) =
     exc_type (KeyError (''Name '' @ arg @ '' non unique: please use index'')) \<and>
   [CHR 0x27] @ arg @ [CHR 0x27] \<noteq> ''Name '' @ arg @ '' non unique: please use index''"
proof (intro conjI allI impI)
  fix i
  assume a: "i < length (reg_processes r) \<and> fst (reg_processes r ! i) = arg \<and>
        (\<forall>j<length (reg_processes r). fst (reg_processes r ! j) = arg \<longrightarrow> j = i)"
  have "filter (\<lambda>i. fst (reg_processes r ! i) = arg) [0..<length (reg_processes r)] = [i]"
    by (rule filter_upt_unique) (use a in simp_all)
  then show "getitem self r (StrKey arg) = Inr \<lparr>parent = self, index = int i, multiplier = 1\<rparr>"
    by (simp add: getitem_str_filter Process_init_def del: getitem.simps)
next
  assume "\<forall>i<length (reg_processes r). fst (reg_processes r ! i) \<noteq> arg"
  then have "filter (\<lambda>i. fst (reg_processes r ! i) = arg) [0..<length (reg_processes r)] = []"
    by (intro filter_upt_none) simp
  then show "getitem self r (StrKey arg) = Inl (KeyError ([CHR 0x27] @ arg @ [CHR 0x27]))"
    by (simp add: getitem_str_filter del: getitem.simps)
next
  assume "\<exists>i j. i < j \<and> j < length (reg_processes r) \<and>
            fst (reg_processes r ! i) = arg \<and> fst (reg_processes r ! j) = arg"
  then obtain i j where "i < j" "j < length (reg_processes r)"
     "fst (reg_processes r ! i) = arg" "fst (reg_processes r ! j) = arg" by blast
  then have "length (filter (\<lambda>i. fst (reg_processes r ! i) = arg) [0..<length (reg_processes r)]) > 1"
    by (rule filter_upt_two)
  then show "getitem self r (StrKey arg) =
          Inl (KeyError (''Name '' @ arg @ '' non unique: please use index''))"
    by (auto simp add: getitem_str_filter Let_def simp del: getitem.simps)
next
  show "exc_type (KeyError ([CHR 0x27] @ arg @ [CHR 0x27])) =
     exc_type (KeyError (''Name '' @ arg @ '' non unique: please use index''))" by simp
next
  show "[CHR 0x27] @ arg @ [CHR 0x27] \<noteq> ''Name '' @ arg @ '' non unique: please use index''"
    by simp
qed

text \<open>
  The three cases on a registry holding Steel once and Coal twice.
\<close>

theorem getitem_name_spec_witness:
  "getitem 0 \<lparr>reg_processes = [(''Steel'', [2]), (''Coal'', [0, 3]), (''Coal'', [1])],
                reg_process_produces = None\<rparr> (StrKey ''Steel'') =
     Inr \<lparr>parent = 0, index = 0, multiplier = 1\<rparr> \<and>
   getitem 0 \<lparr>reg_processes = [(''Steel'', [2]), (''Coal'', [0, 3]), (''Coal'', [1])],
                reg_process_produces = None\<rparr> (StrKey ''Iron'') =
     Inl (KeyError ([CHR 0x27] @ ''Iron'' @ [CHR 0x27])) \<and>
   getitem 0 \<lparr>reg_processes = [(''Steel'', [2]), (''Coal'', [0, 3]), (''Coal'', [1])],
                reg_process_produces = None\<rparr> (StrKey ''Coal'') =
     Inl (KeyError ''Name Coal non unique: please use index'')"
proof -
  let ?r = "\<lparr>reg_processes = [(''Steel'', [2]), (''Coal'', [0, 3]), (''Coal'', [1::real])],
                reg_process_produces = None\<rparr>"
  have u: "(0::nat) < length (reg_processes ?r) \<and> fst (reg_processes ?r ! 0) = ''Steel'' \<and>
        (\<forall>j<length (reg_processes ?r). fst (reg_processes ?r ! j) = ''Steel'' \<longrightarrow> j = 0)"
    by (simp add: less_Suc_eq nth_Cons')
  have z: "\<forall>i<length (reg_processes ?r). fst (reg_processes ?r ! i) \<noteq> ''Iron''"
    by (simp add: less_Suc_eq nth_Cons')
  have d: "\<exists>i j. i < j \<and> j < length (reg_processes ?r) \<and>
            fst (reg_processes ?r ! i) = ''Coal'' \<and> fst (reg_processes ?r ! j) = ''Coal''"
    by (intro exI[of _ 1] exI[of _ 2]) simp
  have a: "getitem 0 ?r (StrKey ''Steel'') = Inr \<lparr>parent = 0, index = int 0, multiplier = 1\<rparr>"
    using getitem_name_spec[of ?r "''Steel''" 0, THEN conjunct1, THEN spec, THEN mp, OF u] .
  have b: "getitem 0 ?r (StrKey ''Iron'') = Inl (KeyError ([CHR 0x27] @ ''Iron'' @ [CHR 0x27]))"
    using getitem_name_spec[of ?r "''Iron''" 0, THEN conjunct2, THEN conjunct1, THEN mp, OF z] .
  have c: "getitem 0 ?r (StrKey ''Coal'') =
        Inl (KeyError (''Name '' @ ''Coal'' @ '' non unique: please use index''))"
    using getitem_name_spec[of ?r "''Coal''" 0, THEN conjunct2, THEN conjunct2, THEN conjunct1,
        THEN mp, OF d] .
  from a b c show ?thesis by simp
qed

section \<open>The produce matrix\<close>

lemma length_np_resize: "length (np_resize a n) = n"
  by (simp add: np_resize_def)

lemma np_resize_pad: "length a \<le> n \<Longrightarrow> np_resize a n = a @ replicate (n - length a) 0"
  by (simp add: np_resize_def)

lemma length_np_transpose: "length (np_transpose m rows) = m"
  by (simp add: np_transpose_def)

lemma np_transpose_row_length: "row \<in> set (np_transpose m rows) \<Longrightarrow> length row = length rows"
  by (auto simp: np_transpose_def)

lemma np_transpose_column:
  assumes "j < length rows" and "length (rows ! j) = m"
  shows "map (\<lambda>row. row ! j) (np_transpose m rows) = rows ! j"
proof -
  have "map (\<lambda>row. row ! j) (np_transpose m rows) = map (\<lambda>r. (rows ! j) ! r) [0..<m]"
    using assms(1) by (simp add: np_transpose_def)
  also have "\<dots> = rows ! j"
    using assms(2) map_nth[of "rows ! j"] by simp
  finally show ?thesis .
qed

lemma create_keeps_cache:
  "reg_process_produces (fst (create self r name resources)) = reg_process_produces r"
  by (simp add: create_def Let_def split: sum.splits)

lemma process_produces_cached:
  "reg_process_produces r = Some m \<Longrightarrow> process_produces r = (r, Inr m)"
  by (simp add: process_produces_def)

text \<open>
  Claim C1. On a registry with at least one definition and an empty cache, reading
  \<open>process_produces\<close> succeeds; afterwards every stored vector is the old one followed by
  zeros up to the maximum length \<open>M\<close> over all definitions, and the array returned has
  \<open>M\<close> rows, one column per definition, column \<open>j\<close> being the padded vector of
  definition \<open>j\<close>. The array is stored in the cache, and every registry state whose
  cache holds it returns it again whatever its definitions are; in particular the state
  reached by a later \<open>create\<close>.
\<close>

theorem process_produces_spec:
  assumes ne: "reg_processes r \<noteq> []"
    and fresh: "reg_process_produces r = None"
    and M: "M = Max (set (map (\<lambda>(name, a). length a) (reg_processes r)))"
  shows "\<exists>m r'. process_produces r = (r', Inr m) \<and>
     reg_processes r' =
       map (\<lambda>(name, a). (name, a @ replicate (M - length a) 0)) (reg_processes r) \<and>
     reg_process_produces r' = Some m \<and>
     length m = M \<and>
     (\<forall>row\<in>set m. length row = length (reg_processes r)) \<and>
     (\<forall>j<length (reg_processes r). map (\<lambda>row. row ! j) m = snd (reg_processes r' ! j)) \<and>
     (\<forall>r''. reg_process_produces r'' = Some m \<longrightarrow> process_produces r'' = (r'', Inr m)) \<and>
     (\<forall>self name resources.
        process_produces (fst (create self r' name resources)) =
          (fst (create self r' name resources), Inr m))"
proof -
  let ?ps = "reg_processes r"
  let ?padded = "map (\<lambda>(name, a). (name, np_resize a M)) ?ps"
  let ?m = "np_transpose M (map snd ?padded)"
  let ?r' = "r\<lparr>reg_processes := ?padded, reg_process_produces := Some ?m\<rparr>"
  have mx: "py_max (map (\<lambda>(name, a). length a) ?ps) = Inr M"
    using ne by (simp add: py_max_nonempty M)
  have run: "process_produces r = (?r', Inr ?m)"
    by (simp add: process_produces_def fresh mx Let_def)
  have le: "length a \<le> M" if "(name, a) \<in> set ?ps" for name a
  proof -
    have "length a \<in> set (map (\<lambda>(name, a). length a) ?ps)"
      using that by force
    then show ?thesis unfolding M by (intro Max_ge) simp_all
  qed
  have pad: "?padded = map (\<lambda>(name, a). (name, a @ replicate (M - length a) 0)) ?ps"
    by (rule map_cong) (auto simp: np_resize_pad le)
  have col: "map (\<lambda>row. row ! j) ?m = snd (reg_processes ?r' ! j)" if "j < length ?ps" for j
  proof -
    have j: "j < length (map snd ?padded)" using that by simp
    have "length (map snd ?padded ! j) = M"
      using that by (simp add: length_np_resize split: prod.splits)
    from np_transpose_column[OF j this] show ?thesis
      using that by simp
  qed
  have later: "process_produces (fst (create self ?r' name resources)) =
          (fst (create self ?r' name resources), Inr ?m)" for self name resources
    by (rule process_produces_cached) (simp add: create_keeps_cache)
  show ?thesis
  proof (intro exI[of _ ?m] exI[of _ ?r'] conjI)
    show "process_produces r = (?r', Inr ?m)" by (rule run)
    show "reg_processes ?r' = map (\<lambda>(name, a). (name, a @ replicate (M - length a) 0)) ?ps"
      using pad by simp
    show "reg_process_produces ?r' = Some ?m" by simp
    show "length ?m = M" by (rule length_np_transpose)
    show "\<forall>row\<in>set ?m. length row = length ?ps"
      using np_transpose_row_length[of _ M "map snd ?padded"] by simp
    show "\<forall>j<length ?ps. map (\<lambda>row. row ! j) ?m = snd (reg_processes ?r' ! j)"
      using col by blast
    show "\<forall>r''. reg_process_produces r'' = Some ?m \<longrightarrow> process_produces r'' = (r'', Inr ?m)"
      using process_produces_cached by blast
    show "\<forall>self name resources. process_produces (fst (create self ?r' name resources)) =
          (fst (create self ?r' name resources), Inr ?m)"
      using later by blast
  qed
qed

text \<open>
  The registry with Steel (resource 0, quantity 2) and Coal (resource 1, quantity 3): the
  matrix is \<open>[[2, 0], [0, 3]]\<close>, also after a third process has been defined.
\<close>

theorem process_produces_spec_witness:
  "reg_processes \<lparr>reg_processes = [(''Steel'', [2]), (''Coal'', [0, 3])],
       reg_process_produces = None\<rparr> \<noteq> [] \<and>
   reg_process_produces \<lparr>reg_processes = [(''Steel'', [2]), (''Coal'', [0, 3])],
       reg_process_produces = None\<rparr> = None \<and>
   (2::nat) = Max (set (map (\<lambda>(name, a). length a)
       (reg_processes \<lparr>reg_processes = [(''Steel'', [2]), (''Coal'', [0, 3::real])],
          reg_process_produces = None\<rparr>))) \<and>
   process_produces \<lparr>reg_processes = [(''Steel'', [2]), (''Coal'', [0, 3])],
       reg_process_produces = None\<rparr> =
     (\<lparr>reg_processes = [(''Steel'', [2, 0]), (''Coal'', [0, 3])],
       reg_process_produces = Some [[2, 0], [0, 3]]\<rparr>, Inr [[2, 0], [0, 3]]) \<and>
   snd (process_produces (fst (create 0
       \<lparr>reg_processes = [(''Steel'', [2, 0]), (''Coal'', [0, 3])],
         reg_process_produces = Some [[2, 0], [0, 3]]\<rparr> ''Iron'' [(\<lparr>res_index = 2\<rparr>, PyFloat 1)]))) =
     Inr [[2, 0], [0, 3]]"
proof -
  let ?r = "\<lparr>reg_processes = [(''Steel'', [2]), (''Coal'', [0, 3::real])],
       reg_process_produces = None\<rparr>"
  let ?r1 = "\<lparr>reg_processes = [(''Steel'', [2, 0]), (''Coal'', [0, 3::real])],
       reg_process_produces = Some [[2, 0], [0, 3]]\<rparr>"
  have h1: "reg_processes ?r \<noteq> []" by simp
  have h2: "reg_process_produces ?r = None" by simp
  have h3: "(2::nat) = Max (set (map (\<lambda>(name, a). length a) (reg_processes ?r)))" by simp
  have ev: "process_produces ?r = (?r1, Inr [[2, 0], [0, 3]])"
    by (simp add: process_produces_def py_max_def np_resize_def np_transpose_def Let_def
        upt_conv_Cons)
  from process_produces_spec[OF h1 h2 h3] obtain m r' where
    run: "process_produces ?r = (r', Inr m)" and
    later: "\<forall>self name resources.
        process_produces (fst (create self r' name resources)) =
          (fst (create self r' name resources), Inr m)"
    by blast
  from run ev have "(r', Inr m :: exc + real list list) = (?r1, Inr [[2, 0], [0, 3]])"
    by (rule trans[OF sym])
  then have eq: "r' = ?r1" "m = [[2, 0], [0, 3]]" by blast+
  have "snd (process_produces (fst (create 0 ?r1 ''Iron'' [(\<lparr>res_index = 2\<rparr>, PyFloat 1)]))) =
     Inr [[2, 0], [0, 3]]"
    using later[rule_format, of 0 "''Iron''" "[(\<lparr>res_index = 2\<rparr>, PyFloat 1)]"]
    unfolding eq by simp
  with h1 h2 h3 ev show ?thesis by (intro conjI)
qed

section \<open>Addition across registries\<close>

text \<open>
  Claim C6. Let \<open>x\<close> and \<open>y\<close> each be a handle or a non-empty expression of the
  store, tracing back to different registry objects. Then \<open>x + y\<close> raises
  \<open>ValueError\<close>, in each of the four combinations of handle and expression, and every
  object that was in the store before the call, the operands among them, is as it was.
\<close>

theorem add_different_registries:
  assumes "valid_operand h x" and "valid_operand h y" and "owner h x \<noteq> owner h y"
  shows "\<exists>h' msg. py_add F h x y = (h', Inl (ValueError msg)) \<and> unchanged h h'"
proof (cases x)
  case (Handle p)
  note x = this
  obtain v where v: "num_mul F (multiplier (process_objs h p)) 1 = Inr v"
    using num_mul_one by blast
  note a = Process_mul_eq[OF v]
  show ?thesis
  proof (cases y)
    case (Handle q)
    let ?h1 = "h\<lparr>process_objs := (process_objs h)
           (process_next h := (process_objs h p)\<lparr>multiplier := v\<rparr>),
        process_next := Suc (process_next h),
        expr_objs := (expr_objs h)(expr_next h := [process_next h]),
        expr_next := Suc (expr_next h)\<rparr>"
    obtain w where w: "num_mul F (multiplier (process_objs ?h1 q)) 1 = Inr w"
      using num_mul_one by blast
    show ?thesis
      using Handle x assms
      by (simp add: py_add_def Process_add_def py_mul_def Process_mul_eq[OF w] a
          ProcessExpr_add_def py_getitem_first valid_operand_def owner_def unchanged_def)
  next
    case (Expr b)
    with assms(2) have "hd (expr_objs h b) \<noteq> process_next h"
      using valid_expr_hd[of h b] by simp
    with Expr x assms show ?thesis
      by (simp add: py_add_def Process_add_def a py_mul_def ProcessExpr_mul_one
          ProcessExpr_add_def py_getitem_first valid_operand_def owner_def unchanged_def)
  qed
next
  case (Expr a)
  note x = this
  show ?thesis
  proof (cases y)
    case (Handle q)
    with x assms show ?thesis
      by (simp add: py_add_def ProcessExpr_add_def py_getitem_first valid_operand_def
          owner_def unchanged_def)
  next
    case (Expr b)
    with x assms show ?thesis
      by (simp add: py_add_def ProcessExpr_add_def py_getitem_first valid_operand_def
          owner_def unchanged_def)
  qed
qed

text \<open>
  In the example store, whatever the float operations are: the handle of Steel, of
  registry 0, plus the handle of Iron, of registry 1.
\<close>

theorem add_different_registries_witness:
  "\<forall>F. valid_operand example_heap (Handle 0) \<and> valid_operand example_heap (Handle 2) \<and>
     owner example_heap (Handle 0) \<noteq> owner example_heap (Handle 2) \<and>
     (\<exists>h' msg. py_add F example_heap (Handle 0) (Handle 2) = (h', Inl (ValueError msg)) \<and>
        unchanged example_heap h')"
proof
  fix F
  have h0: "valid_operand example_heap (Handle 0)"
    and h2: "valid_operand example_heap (Handle 2)"
    by (simp_all add: valid_operand_def example_heap_def)
  have oh: "owner example_heap (Handle 0) \<noteq> owner example_heap (Handle 2)"
    by (simp add: owner_def example_heap_def Process_init_def)
  from h0 h2 oh add_different_registries[OF h0 h2 oh, of F]
  show "valid_operand example_heap (Handle 0) \<and> valid_operand example_heap (Handle 2) \<and>
     owner example_heap (Handle 0) \<noteq> owner example_heap (Handle 2) \<and>
     (\<exists>h' msg. py_add F example_heap (Handle 0) (Handle 2) = (h', Inl (ValueError msg)) \<and>
        unchanged example_heap h')"
    by (intro conjI)
qed

section \<open>Addition with an expression without terms\<close>






end
